theory Spec2Isabelle
  imports Complex_Main "HOL-Library.Sublist" "HOL-Library.Log_Nat"
begin

section \<open>Python values used by the pipeline\<close>

text \<open>
  Strings are byte strings in UTF-8: a character outside ASCII is a run of bytes above
  127, which \<open>lower\<close>, \<open>strip\<close> and \<open>split\<close> leave alone. Case mapping and white space
  are the ASCII ones (Python also counts the separators 28 to 31 as white space).
\<close>

definition lower_char :: "char \<Rightarrow> char" where
  "lower_char c =
     (let n = (of_char c :: nat) in if 65 \<le> n \<and> n \<le> 90 then char_of (n + 32) else c)"

definition py_lower :: "string \<Rightarrow> string" where
  "py_lower s = map lower_char s"

definition py_isspace :: "char \<Rightarrow> bool" where
  "py_isspace c = (let n = (of_char c :: nat) in (9 \<le> n \<and> n \<le> 13) \<or> (28 \<le> n \<and> n \<le> 32))"

definition py_strip :: "string \<Rightarrow> string" where
  "py_strip s = rev (dropWhile py_isspace (rev (dropWhile py_isspace s)))"

text \<open>\<open>needle in hay\<close> on strings: \<open>needle\<close> occurs as a contiguous run.\<close>

definition py_in :: "string \<Rightarrow> string \<Rightarrow> bool" where
  "py_in needle hay = sublist needle hay"

definition py_endswith :: "string \<Rightarrow> string list \<Rightarrow> bool" where
  "py_endswith s sufs = list_ex (\<lambda>suf. suffix suf s) sufs"

fun py_join :: "string \<Rightarrow> string list \<Rightarrow> string" where
  "py_join sep [] = []"
| "py_join sep [x] = x"
| "py_join sep (x # y # ys) = x @ sep @ py_join sep (y # ys)"

text \<open>\<open>s.split()\<close>: the maximal runs of characters that are not white space.\<close>

fun split_acc :: "string \<Rightarrow> string \<Rightarrow> string list" where
  "split_acc cur [] = (if cur = [] then [] else [rev cur])"
| "split_acc cur (c # cs) =
     (if py_isspace c then (if cur = [] then split_acc [] cs else rev cur # split_acc [] cs)
      else split_acc (c # cur) cs)"

definition py_split :: "string \<Rightarrow> string list" where
  "py_split s = split_acc [] s"

definition digit_char :: "nat \<Rightarrow> char" where
  "digit_char d = char_of (48 + d)"

fun str_nat :: "nat \<Rightarrow> string" where
  "str_nat n = (if n < 10 then [digit_char n] else str_nat (n div 10) @ [digit_char (n mod 10)])"

declare str_nat.simps [simp del]

definition str_int :: "int \<Rightarrow> string" where
  "str_int i = (if i < 0 then CHR ''-'' # str_nat (nat (- i)) else str_nat (nat i))"

text \<open>How an f-string prints an argument that is an integer or \<open>None\<close>.\<close>

definition str_int_opt :: "int option \<Rightarrow> string" where
  "str_int_opt v = (case v of None \<Rightarrow> ''None'' | Some i \<Rightarrow> str_int i)"

text \<open>\<open>int(x)\<close> on a float truncates towards zero.\<close>

definition py_int :: "rat \<Rightarrow> int" where
  "py_int x = (if 0 \<le> x then \<lfloor>x\<rfloor> else \<lceil>x\<rceil>)"

text \<open>
  A Python float is an IEEE double. A finite double is represented by the rational it
  denotes, and an operation gives the double nearest to the exact result, ties to the
  even significand: 53 bits of precision, the exponent of the last place not below -1074.
  Results beyond the largest double (infinities) are not represented; the frame rates,
  frame counts and frame indices of a video are far from producing them. The scores of
  \<open>find_similar_products\<close> are sums of a few tenths and are kept exact.
\<close>

definition pow2 :: "int \<Rightarrow> rat" where
  "pow2 e = (if 0 \<le> e then 2 ^ nat e else 1 / 2 ^ nat (- e))"

text \<open>For \<open>x > 0\<close>, the \<open>e\<close> with \<open>2 ^ e \<le> x < 2 ^ (e + 1)\<close>.\<close>

definition floor_log2 :: "rat \<Rightarrow> int" where
  "floor_log2 x = (if 1 \<le> x then bitlen \<lfloor>x\<rfloor> - 1 else - bitlen (\<lceil>1 / x\<rceil> - 1))"

definition round_half_even :: "rat \<Rightarrow> int" where
  "round_half_even x =
     (let f = \<lfloor>x\<rfloor>; r = x - of_int f
      in if r < 1 / 2 then f else if 1 / 2 < r then f + 1 else if even f then f else f + 1)"

definition round_double :: "rat \<Rightarrow> rat" where
  "round_double x =
     (if x = 0 then 0
      else (let u = pow2 (max (floor_log2 \<bar>x\<bar> - 52) (- 1074))
            in of_int (round_half_even (x / u)) * u))"

text \<open>\<open>float(i)\<close>, \<open>a / b\<close> and \<open>a * b\<close> on floats; a literal such as \<open>0.9\<close> is \<open>round_double (9 / 10)\<close>.\<close>

definition float_of_int :: "int \<Rightarrow> rat" where
  "float_of_int i = round_double (of_int i)"

definition fdiv :: "rat \<Rightarrow> rat \<Rightarrow> rat" where
  "fdiv a b = round_double (a / b)"

definition fmul :: "rat \<Rightarrow> rat \<Rightarrow> rat" where
  "fmul a b = round_double (a * b)"

text \<open>Truth value of a string that may be \<open>None\<close>.\<close>

definition truthy :: "string option \<Rightarrow> bool" where
  "truthy v = (case v of None \<Rightarrow> False | Some s \<Rightarrow> s \<noteq> [])"

text \<open>An exception: the name of its class and its message.\<close>

datatype exn = Exn (exn_type: string) (exn_message: string)

section \<open>The outside world\<close>

text \<open>
  A file is either named by the caller or is the k-th temporary file that
  \<open>tempfile.NamedTemporaryFile\<close> created (its name is fresh by construction).
\<close>

datatype path = Named string | Temp nat

text \<open>
  A chat-completion request, reduced to the values interpolated into its prompt: the
  encoded image, the frame context (frame number and timestamp, absent when the context
  is the empty string) and the question for a frame; the question and the evidence
  document for the summary; the question, the summary and the evidence document for
  the evaluation. The fixed text of the prompts is left out.
\<close>

datatype request =
    Vision_request string "(int \<times> int) option" string
  | Summary_request string string
  | Evaluation_request string string string

text \<open>
  What \<open>client.chat.completions.create\<close> does: it raises, or answers with a message whose
  content is a string or \<open>None\<close>.
\<close>

datatype api_outcome = Reply "string option" | Raises exn

text \<open>
  The module's globals and the behaviour of its collaborators during one run: the four
  configuration values read from the environment, the outcome of reading and encoding a
  file, the outcome of each request, and \<open>extract_product_name\<close> of
  \<open>app.utils.product_extractor\<close>, which is not part of the sources at hand and is taken
  as a parameter (its result may be \<open>None\<close>).
\<close>

record env =
  AZURE_OPENAI_ENDPOINT :: "string option"
  AZURE_OPENAI_DEPLOYMENT_NAME :: "string option"
  AZURE_OPENAI_API_VERSION :: "string option"
  AZURE_OPENAI_API_KEY :: "string option"
  encode_image :: "path \<Rightarrow> exn + string"
  chat_completions_create :: "request \<Rightarrow> api_outcome"
  extract_product_name :: "string \<Rightarrow> string option"

text \<open>
  The effects a run leaves behind: the requests sent so far, in order, the number of
  temporary files created and the temporary files that exist.
\<close>

record world =
  requests :: "request list"
  tmp_created :: nat
  tmp_files :: "nat list"

section \<open>\<open>extract_products_from_image\<close>\<close>

text \<open>Lines 32 to 37: the frame context, with the timestamp recomputed from the arguments.\<close>

definition location_context :: "int option \<Rightarrow> rat option \<Rightarrow> (int \<times> int) option" where
  "location_context frame_number fps =
     (case (frame_number, fps) of
        (Some n, Some r) \<Rightarrow>
          (if r \<noteq> 0 then Some (n, py_int (fmul (fdiv (float_of_int n) r) 1000)) else None)
      | _ \<Rightarrow> None)"

definition credentials_loaded :: "env \<Rightarrow> bool" where
  "credentials_loaded e =
     list_all truthy [AZURE_OPENAI_ENDPOINT e, AZURE_OPENAI_DEPLOYMENT_NAME e,
                      AZURE_OPENAI_API_VERSION e, AZURE_OPENAI_API_KEY e]"

definition credentials_error :: string where
  "credentials_error = ''Error: Azure OpenAI API credentials are missing. Please check your .env file.''"

text \<open>\<open>response.choices[0].message.content.strip()\<close>: a content of \<open>None\<close> has no \<open>strip\<close>.\<close>

definition none_has_no_strip :: exn where
  "none_has_no_strip =
     Exn ''AttributeError''
       ([CHR 0x27] @ ''NoneType'' @ [CHR 0x27] @ '' object has no attribute '' @
        [CHR 0x27] @ ''strip'' @ [CHR 0x27])"

text \<open>
  Lines 30 to 91, the body of the \<open>try\<close>: the image is encoded and the frame context
  computed, then the configuration is checked, then the request is sent. The result is
  the returned text or the exception raised, with the world as it is then.
\<close>

definition try_extract ::
  "env \<Rightarrow> path \<Rightarrow> string \<Rightarrow> int option \<Rightarrow> rat option \<Rightarrow> world \<Rightarrow> (exn + string) \<times> world" where
  "try_extract e image_path user_question frame_number fps w =
     (case encode_image e image_path of
        Inl x \<Rightarrow> (Inl x, w)
      | Inr base64_image \<Rightarrow>
          (let ctx = location_context frame_number fps in
           if \<not> credentials_loaded e then (Inr credentials_error, w)
           else
             (let req = Vision_request base64_image ctx user_question;
                  w' = w\<lparr>requests := requests w @ [req]\<rparr>
              in case chat_completions_create e req of
                   Raises x \<Rightarrow> (Inl x, w')
                 | Reply None \<Rightarrow> (Inl none_has_no_strip, w')
                 | Reply (Some content) \<Rightarrow> (Inr (py_strip content), w'))))"

text \<open>Lines 93 to 106, the handler: the exception becomes a placeholder text.\<close>

definition skip_marker :: "int option \<Rightarrow> exn \<Rightarrow> string" where
  "skip_marker frame_number x =
     (let error_type = exn_type x; error_message = exn_message x in
      if py_in ''timeout'' (py_lower error_message)
      then ''[Skipped frame '' @ str_int_opt frame_number @ '' due to timeout. Try again later.]''
      else if list_ex (\<lambda>net_err. py_in net_err (py_lower error_message))
                [''connection'', ''network'', ''connect'']
      then ''[Skipped frame '' @ str_int_opt frame_number @
           '' due to connection error. Check your internet connection.]''
      else ''[Skipped frame '' @ str_int_opt frame_number @ '' due to error: '' @ error_type @ '']'')"

definition extract_products_from_image ::
  "env \<Rightarrow> path \<Rightarrow> string \<Rightarrow> int option \<Rightarrow> rat option \<Rightarrow> world \<Rightarrow> string \<times> world" where
  "extract_products_from_image e image_path user_question frame_number fps w =
     (case try_extract e image_path user_question frame_number fps w of
        (Inr text, w') \<Rightarrow> (text, w')
      | (Inl x, w') \<Rightarrow> (skip_marker frame_number x, w'))"

section \<open>\<open>analyze_video_for_query\<close>\<close>

text \<open>
  An opened \<open>cv2.VideoCapture\<close>: whether it could be opened, the two properties the
  function reads, and the frames that \<open>read\<close> delivers before it reports failure.
\<close>

record capture =
  isOpened :: bool
  CAP_PROP_FPS :: rat
  CAP_PROP_FRAME_COUNT :: rat
  frames :: "string list"

text \<open>The local variables of the sampling loop, with the world.\<close>

record loop_state =
  frame_responses :: "string list"
  product_timestamps :: "int list"
  analyzed :: "int list"
  outside :: world

definition presence_keywords :: "string list" where
  "presence_keywords =
     [''located'', ''visible'', ''is on'', ''can be seen'', ''placed'', ''sitting'', ''present'', ''seen'']"

definition uncertainty_keywords :: "string list" where
  "uncertainty_keywords =
     [''not visible'', ''not found'', ''unclear'', ''could be'', ''might be'', ''probably'']"

definition zero_division :: exn where
  "zero_division = Exn ''ZeroDivisionError'' ''float division by zero''"

definition modulo_by_zero :: exn where
  "modulo_by_zero = Exn ''ZeroDivisionError'' ''integer modulo by zero''"

definition no_such_file :: exn where
  "no_such_file = Exn ''FileNotFoundError'' ''[Errno 2] No such file or directory''"

text \<open>Line 136: the entry of a frame in the evidence document (the glyph is U+1F5BC).\<close>

definition frame_entry :: "int \<Rightarrow> int \<Rightarrow> string \<Rightarrow> string" where
  "frame_entry frame_index timestamp_ms response =
     [CHR 0xF0, CHR 0x9F, CHR 0x96, CHR 0xBC] @ '' Frame '' @ str_int frame_index @ '' ('' @
     str_int timestamp_ms @ '' ms):'' @ [CHR 0x0A] @ response"

text \<open>Lines 141 to 156: whether the timestamp of a frame counts as positive evidence.\<close>

definition positive_evidence :: "string \<Rightarrow> int \<Rightarrow> int \<Rightarrow> rat \<Rightarrow> bool" where
  "positive_evidence response timestamp_ms total_frames fps =
     (let response_clean = py_lower response;
          keywords_present = list_ex (\<lambda>keyword. py_in keyword response_clean) presence_keywords;
          uncertain_phrases = list_ex (\<lambda>phrase. py_in phrase response_clean) uncertainty_keywords;
          video_duration_ms = fmul (fdiv (float_of_int total_frames) fps) 1000;
          end_threshold_ms = fmul video_duration_ms (round_double (9 / 10))
      in keywords_present \<and> \<not> uncertain_phrases \<and>
         (of_int timestamp_ms < end_threshold_ms \<or> \<not> py_in ''end'' response_clean))"

text \<open>
  Lines 123 to 158, the body of the loop for a sampled frame. The result is the exception
  that leaves the loop, if any, with the state reached. \<open>analyzed\<close> records the index
  handed to the vision call.
\<close>

definition sample_frame ::
  "env \<Rightarrow> rat \<Rightarrow> int \<Rightarrow> string \<Rightarrow> int \<Rightarrow> loop_state \<Rightarrow> exn option \<times> loop_state" where
  "sample_frame e fps total_frames user_question frame_index st =
     (let w = outside st;
          temp_filename = tmp_created w;
          w1 = w\<lparr>tmp_created := Suc temp_filename, tmp_files := tmp_files w @ [temp_filename]\<rparr>
      in if fps = 0 then (Some zero_division, st\<lparr>outside := w1\<rparr>)
         else
           (let timestamp_ms = py_int (fmul (fdiv (float_of_int frame_index) fps) 1000);
                (response, w2) =
                   extract_products_from_image e (Temp temp_filename) user_question
                     (Some frame_index) (Some fps) w1;
                st2 = st\<lparr>frame_responses :=
                            frame_responses st @ [frame_entry frame_index timestamp_ms response],
                          analyzed := analyzed st @ [frame_index],
                          outside := w2\<rparr>;
                st3 = (if positive_evidence response timestamp_ms total_frames fps
                       then st2\<lparr>product_timestamps := product_timestamps st2 @ [timestamp_ms]\<rparr>
                       else st2)
            in if temp_filename \<in> set (tmp_files w2)
               then (None, st3\<lparr>outside := w2\<lparr>tmp_files := removeAll temp_filename (tmp_files w2)\<rparr>\<rparr>)
               else (Some no_such_file, st3)))"

text \<open>
  Lines 117 to 160: one turn of the loop for each frame that \<open>read\<close> delivers; the loop
  ends when \<open>read\<close> fails. \<open>frame_index % frame_interval\<close> raises when the interval is 0.
\<close>

fun sample_loop ::
  "env \<Rightarrow> rat \<Rightarrow> int \<Rightarrow> string \<Rightarrow> int \<Rightarrow> string list \<Rightarrow> int \<Rightarrow> loop_state \<Rightarrow> exn option \<times> loop_state" where
  "sample_loop e fps total_frames user_question frame_interval [] frame_index st = (None, st)"
| "sample_loop e fps total_frames user_question frame_interval (frame # rest) frame_index st =
     (if frame_interval = 0 then (Some modulo_by_zero, st)
      else if frame_index mod frame_interval = 0
      then (case sample_frame e fps total_frames user_question frame_index st of
              (Some x, st') \<Rightarrow> (Some x, st')
            | (None, st') \<Rightarrow>
                sample_loop e fps total_frames user_question frame_interval rest (frame_index + 1) st')
      else sample_loop e fps total_frames user_question frame_interval rest (frame_index + 1) st)"

definition initial_state :: "world \<Rightarrow> loop_state" where
  "initial_state w = \<lparr>frame_responses = [], product_timestamps = [], analyzed = [], outside = w\<rparr>"

text \<open>Lines 109 to 162: the capture is opened, its properties read and the loop run.\<close>

definition sampling ::
  "env \<Rightarrow> capture \<Rightarrow> string \<Rightarrow> int \<Rightarrow> world \<Rightarrow> exn option \<times> loop_state" where
  "sampling e cap user_question frame_interval w =
     (let fps = CAP_PROP_FPS cap;
          total_frames = py_int (CAP_PROP_FRAME_COUNT cap)
      in if isOpened cap
         then sample_loop e fps total_frames user_question frame_interval (frames cap) 0 (initial_state w)
         else (None, initial_state w))"

text \<open>
  A text-only request (lines 182 to 194 and 257 to 267): the request is sent, and the
  stripped content of the answer returned; an exception is not caught here.
\<close>

definition chat_text :: "env \<Rightarrow> request \<Rightarrow> world \<Rightarrow> (exn + string) \<times> world" where
  "chat_text e req w =
     (let w' = w\<lparr>requests := requests w @ [req]\<rparr>
      in case chat_completions_create e req of
           Raises x \<Rightarrow> (Inl x, w')
         | Reply None \<Rightarrow> (Inl none_has_no_strip, w')
         | Reply (Some content) \<Rightarrow> (Inr (py_strip content), w'))"

definition evaluate_summary_accuracy ::
  "env \<Rightarrow> string \<Rightarrow> string \<Rightarrow> string \<Rightarrow> world \<Rightarrow> (exn + string) \<times> world" where
  "evaluate_summary_accuracy e user_question generated_summary frame_analysis_text w =
     chat_text e (Evaluation_request user_question generated_summary frame_analysis_text) w"

text \<open>The dictionary that \<open>analyze_video_for_query\<close> returns.\<close>

record analysis =
  final_summary :: string
  timestamps :: "int list"
  product_name :: "string option"

text \<open>Lines 204 to 206 and 216 to 218: the product name, from the summary or the question.\<close>

definition choose_product_name :: "env \<Rightarrow> string \<Rightarrow> string \<Rightarrow> string option" where
  "choose_product_name e base_summary user_question =
     (let product_name' = extract_product_name e base_summary in
      if \<not> truthy product_name' \<or> map_option py_lower product_name' = Some ''unknown''
      then extract_product_name e user_question
      else product_name')"

text \<open>Lines 200 to 212, the branch for a path that ends like an image (printing left out).\<close>

definition image_branch ::
  "env \<Rightarrow> string \<Rightarrow> string \<Rightarrow> string \<Rightarrow> string \<Rightarrow> int list \<Rightarrow> world \<Rightarrow> (exn + analysis) \<times> world" where
  "image_branch e video_path user_question base_summary combined_text product_timestamps' w =
     (let (response, w1) =
            extract_products_from_image e (Named video_path) user_question None None w
      in case evaluate_summary_accuracy e user_question base_summary combined_text w1 of
           (Inl x, w2) \<Rightarrow> (Inl x, w2)
         | (Inr evaluation_result, w2) \<Rightarrow>
             (Inr \<lparr>final_summary = base_summary,
                   timestamps = product_timestamps',
                   product_name = choose_product_name e base_summary user_question\<rparr>, w2))"

text \<open>Lines 213 to 224, the branch for every other path.\<close>

definition default_branch ::
  "env \<Rightarrow> string \<Rightarrow> string \<Rightarrow> string \<Rightarrow> int list \<Rightarrow> world \<Rightarrow> (exn + analysis) \<times> world" where
  "default_branch e user_question base_summary combined_text product_timestamps' w =
     (case evaluate_summary_accuracy e user_question base_summary combined_text w of
        (Inl x, w2) \<Rightarrow> (Inl x, w2)
      | (Inr evaluation_result, w2) \<Rightarrow>
          (Inr \<lparr>final_summary = base_summary,
                timestamps = product_timestamps',
                product_name = choose_product_name e base_summary user_question\<rparr>, w2))"

text \<open>Lines 197 and 198: the summary overrules the timestamps collected by the loop.\<close>

definition final_timestamps :: "int list \<Rightarrow> string \<Rightarrow> int list" where
  "final_timestamps product_timestamps' base_summary =
     (if product_timestamps' = [] \<or> py_in ''not visible'' (py_lower base_summary)
      then [] else product_timestamps')"

definition combine :: "string list \<Rightarrow> string" where
  "combine responses = py_join [CHR 0x0A, CHR 0x0A] responses"

text \<open>
  The whole function; \<open>cap\<close> is what \<open>cv2.VideoCapture(video_path)\<close> gives. The result is
  the dictionary or the exception that leaves the function, with the world. Releasing
  the capture and printing are left out: nothing the function returns reads them.
\<close>

definition analyze_video_for_query ::
  "env \<Rightarrow> capture \<Rightarrow> string \<Rightarrow> string \<Rightarrow> int \<Rightarrow> world \<Rightarrow> (exn + analysis) \<times> world" where
  "analyze_video_for_query e cap video_path user_question frame_interval w =
     (case sampling e cap user_question frame_interval w of
        (Some x, st) \<Rightarrow> (Inl x, outside st)
      | (None, st) \<Rightarrow>
          (let combined_text = combine (frame_responses st)
           in case chat_text e (Summary_request user_question combined_text) (outside st) of
                (Inl x, w1) \<Rightarrow> (Inl x, w1)
              | (Inr base_summary, w1) \<Rightarrow>
                  (let product_timestamps' = final_timestamps (product_timestamps st) base_summary
                   in if py_endswith (py_lower video_path) [''.jpg'', ''.jpeg'', ''.png'']
                      then image_branch e video_path user_question base_summary combined_text
                             product_timestamps' w1
                      else default_branch e user_question base_summary combined_text
                             product_timestamps' w1)))"

section \<open>\<open>GoogleVisionProductDetector.find_similar_products\<close>\<close>

record ProductDetection =
  name :: string
  brand :: string
  category :: string
  confidence :: rat
  description :: string
  attributes :: "(string \<times> string) list"
  bounding_box :: "(string \<times> string) list option"

text \<open>
  Lines 288 to 304: the score of one product against the lower-cased query. The set
  \<open>set(name_words) & set(search_words)\<close> is kept as the list of its distinct elements,
  so that its length is the size of the set.
\<close>

definition similarity_score :: "ProductDetection \<Rightarrow> string \<Rightarrow> rat" where
  "similarity_score product search_lower =
     (let s0 = 0;
          s1 = (if py_in (py_lower (brand product)) search_lower then s0 + 4 / 10 else s0);
          s2 = (if py_in (py_lower (category product)) search_lower then s1 + 3 / 10 else s1);
          name_words = py_split (py_lower (name product));
          search_words = py_split search_lower;
          common_words = remdups (filter (\<lambda>word. word \<in> set search_words) name_words)
      in if common_words \<noteq> []
         then s2 + (3 / 10) * (of_nat (length common_words) / of_nat (length search_words))
         else s2)"

text \<open>Lines 286 to 308: the loop that keeps the products above the threshold.\<close>

fun similar_loop :: "string \<Rightarrow> ProductDetection list \<Rightarrow> ProductDetection list \<Rightarrow> ProductDetection list" where
  "similar_loop search_lower [] similar_products = similar_products"
| "similar_loop search_lower (product # rest) similar_products =
     (let similarity = similarity_score product search_lower
      in if similarity > 5 / 10
         then similar_loop search_lower rest (similar_products @ [product\<lparr>confidence := similarity\<rparr>])
         else similar_loop search_lower rest similar_products)"

text \<open>
  Line 311: \<open>sort(key=..., reverse=True)\<close> is a stable sort into descending order of the
  key, which is a stable ascending sort on the negated key.
\<close>

definition find_similar_products :: "ProductDetection list \<Rightarrow> string \<Rightarrow> ProductDetection list" where
  "find_similar_products detected_products search_query =
     (let search_lower = py_lower search_query;
          similar_products = similar_loop search_lower detected_products []
      in sort_key (\<lambda>x. - confidence x) similar_products)"

section \<open>A concrete run\<close>

text \<open>
  A configured module whose vision service answers for frame 0 with a confident
  sighting, for frame 1 with an uncertain one, times out on frames 2 and 42 and answers for
  every later frame with a sighting that mentions the end of the aisle; a video of four
  frames at one frame per second; and a world in which nothing has happened yet.
\<close>

definition shelf_env :: env where
  "shelf_env =
     \<lparr>AZURE_OPENAI_ENDPOINT = Some ''https://shelf.openai.azure.com'',
      AZURE_OPENAI_DEPLOYMENT_NAME = Some ''gpt-4o'',
      AZURE_OPENAI_API_VERSION = Some ''2024-02-01'',
      AZURE_OPENAI_API_KEY = Some ''secret'',
      encode_image = (\<lambda>p. Inr ''aW1hZ2U=''),
      chat_completions_create = (\<lambda>r. case r of
          Vision_request img ctx q \<Rightarrow>
            (case ctx of
               None \<Rightarrow> Reply (Some ''A shelf with detergent bottles.'')
             | Some (n, t) \<Rightarrow>
                 if n = 0 then Reply (Some ''The product is located on the top shelf.'')
                 else if n = 1 then Reply (Some ''The product might be located on the top shelf'')
                 else if n = 2 \<or> n = 42 then Raises (Exn ''APITimeoutError'' ''Request Timeout after 30s'')
                 else Reply (Some ''  The product is visible near the end of the aisle. ''))
        | Summary_request q txt \<Rightarrow> Reply (Some ''The product is Not Visible in this video. '')
        | Evaluation_request q s txt \<Rightarrow> Reply (Some ''Accuracy Score (0-100)%: 90'')),
      extract_product_name = (\<lambda>s. if s = ''Where is Tide?'' then Some ''Tide'' else Some ''unknown'')\<rparr>"

definition shelf_video :: capture where
  "shelf_video = \<lparr>isOpened = True, CAP_PROP_FPS = 1, CAP_PROP_FRAME_COUNT = 4,
                   frames = [''f0'', ''f1'', ''f2'', ''f3'']\<rparr>"

definition new_world :: world where
  "new_world = \<lparr>requests = [], tmp_created = 0, tmp_files = []\<rparr>"

text \<open>The same module with the key missing, and with the image unreadable as well.\<close>

definition unconfigured_env :: env where
  "unconfigured_env = shelf_env\<lparr>AZURE_OPENAI_API_KEY := None\<rparr>"

definition unreadable_env :: env where
  "unreadable_env =
     unconfigured_env\<lparr>encode_image :=
       (\<lambda>p. Inl (Exn ''FileNotFoundError'' ''[Errno 2] No such file or directory''))\<rparr>"

text \<open>A source that could not be opened.\<close>

definition unopened_video :: capture where
  "unopened_video = \<lparr>isOpened = False, CAP_PROP_FPS = 0, CAP_PROP_FRAME_COUNT = 0, frames = []\<rparr>"

text \<open>Three detected products, each with the confidence of the text analysis.\<close>

definition detected_on_shelf :: "ProductDetection list" where
  "detected_on_shelf =
     [\<lparr>name = ''Soap'', brand = '''', category = ''Detergent'', confidence = 6 / 10,
       description = ''Soap'', attributes = [(''source'', ''text_analysis'')], bounding_box = None\<rparr>,
      \<lparr>name = ''Cola Zero'', brand = ''Coke'', category = ''Drink'', confidence = 6 / 10,
       description = ''Cola Zero'', attributes = [], bounding_box = None\<rparr>,
      \<lparr>name = ''Tide Pods'', brand = ''Tide'', category = ''Detergent'', confidence = 6 / 10,
       description = ''Tide Pods'', attributes = [], bounding_box = None\<rparr>]"

section \<open>Properties\<close>

subsection \<open>What the vision call leaves alone\<close>

lemma try_extract_files:
  "tmp_files (snd (try_extract e p q n f w)) = tmp_files w \<and>
   tmp_created (snd (try_extract e p q n f w)) = tmp_created w"
  by (simp add: try_extract_def Let_def split: sum.splits api_outcome.splits option.splits)

lemma try_extract_text_any_world:
  "fst (try_extract e p q n f w) = fst (try_extract e p q n f w')"
  by (simp add: try_extract_def Let_def split: sum.splits api_outcome.splits option.splits)

lemma extract_files:
  "tmp_files (snd (extract_products_from_image e p q n f w)) = tmp_files w \<and>
   tmp_created (snd (extract_products_from_image e p q n f w)) = tmp_created w"
proof (cases "try_extract e p q n f w")
  case (Pair r w')
  with try_extract_files [of e p q n f w] show ?thesis
    by (cases r) (simp_all add: extract_products_from_image_def)
qed

lemma extract_text_any_world:
  "fst (extract_products_from_image e p q n f w) = fst (extract_products_from_image e p q n f w')"
  using try_extract_text_any_world [of e p q n f w w']
  by (auto simp add: extract_products_from_image_def split: prod.splits sum.splits)

lemma sample_frame_unfold:
  assumes "fps \<noteq> 0"
  shows "sample_frame e fps total_frames q i st =
    (let w = outside st;
         k = tmp_created w;
         w1 = w\<lparr>tmp_created := Suc k, tmp_files := tmp_files w @ [k]\<rparr>;
         timestamp_ms = py_int (fmul (fdiv (float_of_int i) fps) 1000);
         response = fst (extract_products_from_image e (Temp k) q (Some i) (Some fps) w1);
         w2 = snd (extract_products_from_image e (Temp k) q (Some i) (Some fps) w1)
     in (None,
         \<lparr>frame_responses = frame_responses st @ [frame_entry i timestamp_ms response],
          product_timestamps = product_timestamps st @
             (if positive_evidence response timestamp_ms total_frames fps then [timestamp_ms] else []),
          analyzed = analyzed st @ [i],
          outside = w2\<lparr>tmp_files := removeAll k (tmp_files w)\<rparr>\<rparr>))"
proof -
  let ?w = "outside st"
  let ?k = "tmp_created ?w"
  let ?w1 = "?w\<lparr>tmp_created := Suc ?k, tmp_files := tmp_files ?w @ [?k]\<rparr>"
  obtain response w2 where x:
    "extract_products_from_image e (Temp ?k) q (Some i) (Some fps) ?w1 = (response, w2)"
    by (cases "extract_products_from_image e (Temp ?k) q (Some i) (Some fps) ?w1")
  from extract_files [of e "Temp ?k" q "Some i" "Some fps" ?w1] x
  have f: "tmp_files w2 = tmp_files ?w @ [?k]" by simp
  show ?thesis
    using assms x f by (simp add: sample_frame_def Let_def)
qed

subsection \<open>The two return branches\<close>

text \<open>
  C9. The branch taken for a path that ends in \<open>.jpg\<close>, \<open>.jpeg\<close> or \<open>.png\<close> and the
  default branch return the same value (the same dictionary, or the same exception of
  the evaluation call) from the same summary, timestamps and question: the text that the
  extra vision call of the image branch returns is not used.
\<close>

theorem branches_agree:
  "fst (image_branch e video_path user_question base_summary combined_text ts w) =
   fst (default_branch e user_question base_summary combined_text ts w)"
  by (simp add: image_branch_def default_branch_def evaluate_summary_accuracy_def chat_text_def
      Let_def split: prod.splits api_outcome.splits option.splits)

theorem branches_agree_witness:
  "fst (image_branch shelf_env ''shelf.jpg'' ''Where is Tide?'' ''Top shelf.'' [] [0] new_world) =
   Inr \<lparr>final_summary = ''Top shelf.'', timestamps = [0], product_name = Some ''Tide''\<rparr> \<and>
   fst (default_branch shelf_env ''Where is Tide?'' ''Top shelf.'' [] [0] new_world) =
   Inr \<lparr>final_summary = ''Top shelf.'', timestamps = [0], product_name = Some ''Tide''\<rparr>"
proof -
  have "fst (default_branch shelf_env ''Where is Tide?'' ''Top shelf.'' [] [0] new_world) =
   Inr \<lparr>final_summary = ''Top shelf.'', timestamps = [0], product_name = Some ''Tide''\<rparr>"
    by code_simp
  then show ?thesis
    using branches_agree [of shelf_env "''shelf.jpg''" "''Where is Tide?''" "''Top shelf.''" "[]" "[0]" new_world]
    by simp
qed

subsection \<open>Timestamps\<close>

lemma py_int_nonneg: "0 \<le> x \<Longrightarrow> py_int x = \<lfloor>x\<rfloor>"
  by (simp add: py_int_def)

lemma round_half_even_nonneg: "0 \<le> x \<Longrightarrow> 0 \<le> round_half_even x"
  by (auto simp add: round_half_even_def Let_def)

lemma pow2_pos: "0 < pow2 e"
  by (simp add: pow2_def)

lemma round_double_nonneg:
  assumes "0 \<le> x"
  shows "0 \<le> round_double x"
proof (cases "x = 0")
  case True
  then show ?thesis by (simp add: round_double_def)
next
  case False
  let ?u = "pow2 (max (floor_log2 \<bar>x\<bar> - 52) (- 1074))"
  from assms pow2_pos [of "max (floor_log2 \<bar>x\<bar> - 52) (- 1074)"] have "0 \<le> x / ?u" by simp
  then have "0 \<le> round_half_even (x / ?u)" by (rule round_half_even_nonneg)
  with pow2_pos [of "max (floor_log2 \<bar>x\<bar> - 52) (- 1074)"] False show ?thesis
    by (simp add: round_double_def Let_def)
qed

lemma timestamp_nonneg:
  assumes "0 \<le> i" and "0 < fps"
  shows "0 \<le> fmul (fdiv (float_of_int i) fps) 1000"
proof -
  from assms(1) have "0 \<le> float_of_int i"
    unfolding float_of_int_def by (intro round_double_nonneg) simp
  with assms(2) have "0 \<le> fdiv (float_of_int i) fps"
    unfolding fdiv_def by (intro round_double_nonneg) simp
  then show ?thesis
    unfolding fmul_def by (intro round_double_nonneg) simp
qed

text \<open>
  C4, as amended. For a frame index \<open>i \<ge> 0\<close> and a frame rate \<open>fps > 0\<close> the timestamp
  is the floor of the double that \<open>(i / fps) * 1000\<close> evaluates to, the division and the
  multiplication each rounded to the nearest double; and it is that same value both
  where the vision call recomputes it for the frame context of its request and where the
  sampling loop computes it for the entry of the frame in the evidence document.
\<close>

theorem timestamp_is_floor_of_double:
  assumes "0 \<le> i" and "0 < fps"
  shows "location_context (Some i) (Some fps) =
           Some (i, \<lfloor>fmul (fdiv (float_of_int i) fps) 1000\<rfloor>) \<and>
         frame_responses (snd (sample_frame e fps total_frames q i st)) =
           frame_responses st @
             [frame_entry i \<lfloor>fmul (fdiv (float_of_int i) fps) 1000\<rfloor>
                (fst (extract_products_from_image e (Temp (tmp_created (outside st))) q
                        (Some i) (Some fps) (outside st)))]"
proof -
  note nn = timestamp_nonneg [OF assms]
  from assms have nz: "fps \<noteq> 0" by simp
  have a: "location_context (Some i) (Some fps) =
             Some (i, \<lfloor>fmul (fdiv (float_of_int i) fps) 1000\<rfloor>)"
    using nz py_int_nonneg [OF nn] by (simp add: location_context_def)
  have b: "frame_responses (snd (sample_frame e fps total_frames q i st)) =
           frame_responses st @
             [frame_entry i \<lfloor>fmul (fdiv (float_of_int i) fps) 1000\<rfloor>
                (fst (extract_products_from_image e (Temp (tmp_created (outside st))) q
                        (Some i) (Some fps) (outside st)))]"
    using py_int_nonneg [OF nn]
      extract_text_any_world [of e "Temp (tmp_created (outside st))" q "Some i" "Some fps"
        "(outside st)\<lparr>tmp_created := Suc (tmp_created (outside st)),
           tmp_files := tmp_files (outside st) @ [tmp_created (outside st)]\<rparr>" "outside st"]
    by (simp add: sample_frame_unfold [OF nz] Let_def)
  from a b show ?thesis by simp
qed

theorem timestamp_is_floor_of_double_witness:
  "(0::int) \<le> 201 \<and> (0::rat) < 25 \<and>
   location_context (Some 201) (Some 25) = Some (201, 8039) \<and>
   frame_responses (snd (sample_frame shelf_env 25 4 ''Where is Tide?'' 201 (initial_state new_world))) =
     [frame_entry 201 8039 ''The product is visible near the end of the aisle.'']"
proof -
  have i: "(0::int) \<le> 201" and f: "(0::rat) < 25" by simp_all
  have fl: "\<lfloor>fmul (fdiv (float_of_int 201) 25) 1000\<rfloor> = 8039" by code_simp
  have x: "fst (extract_products_from_image shelf_env (Temp (tmp_created (outside (initial_state new_world))))
       ''Where is Tide?'' (Some 201) (Some 25) (outside (initial_state new_world))) =
       ''The product is visible near the end of the aisle.''"
    by code_simp
  have fr: "frame_responses (initial_state new_world) = []" by (simp add: initial_state_def)
  show ?thesis
    using timestamp_is_floor_of_double [OF i f, of shelf_env 4 "''Where is Tide?''" "initial_state new_world"]
    unfolding fl x fr by simp
qed

text \<open>
  The floor of the exact quotient is another number: for frame 1633 (the 71st frame
  sampled at the default interval of 23) at 25 frames per second the code computes 65319,
  in the request and in the entry, where \<open>floor (1633 / 25 * 1000)\<close> is 65320.
\<close>

theorem timestamp_exact_floor_counterexample:
  "location_context (Some 1633) (Some 25) = Some (1633, 65319) \<and>
   frame_responses (snd (sample_frame shelf_env 25 2000 ''Where is Tide?'' 1633 (initial_state new_world))) =
     [frame_entry 1633 65319 ''The product is visible near the end of the aisle.''] \<and>
   \<lfloor>rat_of_int 1633 / 25 * 1000\<rfloor> = (65320::int)"
proof -
  have f: "(25::rat) \<noteq> 0" by simp
  have t: "py_int (fmul (fdiv (float_of_int 1633) 25) 1000) = 65319" by code_simp
  then have a: "location_context (Some 1633) (Some 25) = Some (1633, 65319)"
    by (simp add: location_context_def)
  have x: "fst (extract_products_from_image shelf_env (Temp (tmp_created (outside (initial_state new_world))))
       ''Where is Tide?'' (Some 1633) (Some 25)
       ((outside (initial_state new_world))\<lparr>tmp_created := Suc (tmp_created (outside (initial_state new_world))),
           tmp_files := tmp_files (outside (initial_state new_world)) @
                          [tmp_created (outside (initial_state new_world))]\<rparr>)) =
       ''The product is visible near the end of the aisle.''"
    by code_simp
  have i: "frame_responses (initial_state new_world) = []" by (simp add: initial_state_def)
  have b: "frame_responses (snd (sample_frame shelf_env 25 2000 ''Where is Tide?'' 1633 (initial_state new_world))) =
     [frame_entry 1633 65319 ''The product is visible near the end of the aisle.'']"
    unfolding sample_frame_unfold [OF f] Let_def snd_conv loop_state.simps t x i by simp
  have c: "\<lfloor>rat_of_int 1633 / 25 * 1000\<rfloor> = (65320::int)" by code_simp
  from a b c show ?thesis by blast
qed

subsection \<open>Missing credentials\<close>

text \<open>
  C8, as amended. When one of the four configuration values is unset and the image could
  be read and encoded, \<open>extract_products_from_image\<close> returns the text about missing
  credentials and leaves the world as it was: no request is sent and nothing is raised.
  The check comes after the image is encoded, not before any other processing.
\<close>

theorem missing_credentials_after_encoding:
  assumes "None \<in> set [AZURE_OPENAI_ENDPOINT e, AZURE_OPENAI_DEPLOYMENT_NAME e,
                        AZURE_OPENAI_API_VERSION e, AZURE_OPENAI_API_KEY e]"
    and "encode_image e image_path = Inr base64_image"
  shows "extract_products_from_image e image_path user_question frame_number fps w =
           (''Error: Azure OpenAI API credentials are missing. Please check your .env file.'', w)"
proof -
  from assms(1) have "\<not> credentials_loaded e"
    by (auto simp add: credentials_loaded_def truthy_def)
  with assms(2) show ?thesis
    by (simp add: extract_products_from_image_def try_extract_def credentials_error_def)
qed

theorem missing_credentials_after_encoding_witness:
  "None \<in> set [AZURE_OPENAI_ENDPOINT unconfigured_env, AZURE_OPENAI_DEPLOYMENT_NAME unconfigured_env,
                AZURE_OPENAI_API_VERSION unconfigured_env, AZURE_OPENAI_API_KEY unconfigured_env] \<and>
   encode_image unconfigured_env (Named ''shelf.jpg'') = Inr ''aW1hZ2U='' \<and>
   extract_products_from_image unconfigured_env (Named ''shelf.jpg'') ''Where is Tide?'' (Some 42) (Some 30) new_world =
     (''Error: Azure OpenAI API credentials are missing. Please check your .env file.'', new_world)"
proof -
  have a: "None \<in> set [AZURE_OPENAI_ENDPOINT unconfigured_env, AZURE_OPENAI_DEPLOYMENT_NAME unconfigured_env,
                AZURE_OPENAI_API_VERSION unconfigured_env, AZURE_OPENAI_API_KEY unconfigured_env]"
    by (simp add: unconfigured_env_def)
  have b: "encode_image unconfigured_env (Named ''shelf.jpg'') = Inr ''aW1hZ2U=''"
    by (simp add: unconfigured_env_def shelf_env_def)
  from a b missing_credentials_after_encoding [OF a b] show ?thesis by simp
qed

text \<open>
  With the key unset and an image that cannot be read, the call returns the placeholder
  for the failed read, not the text about missing credentials.
\<close>

theorem missing_credentials_counterexample:
  "None \<in> set [AZURE_OPENAI_ENDPOINT unreadable_env, AZURE_OPENAI_DEPLOYMENT_NAME unreadable_env,
                AZURE_OPENAI_API_VERSION unreadable_env, AZURE_OPENAI_API_KEY unreadable_env] \<and>
   fst (extract_products_from_image unreadable_env (Named ''missing.jpg'') ''Where is Tide?'' None None new_world) =
     ''[Skipped frame None due to error: FileNotFoundError]'' \<and>
   fst (extract_products_from_image unreadable_env (Named ''missing.jpg'') ''Where is Tide?'' None None new_world) \<noteq>
     ''Error: Azure OpenAI API credentials are missing. Please check your .env file.''"
  by code_simp

lemma failed_encoding_is_skipped:
  assumes "encode_image e image_path = Inl x"
  shows "extract_products_from_image e image_path user_question frame_number fps w =
           (skip_marker frame_number x, w)"
  using assms by (simp add: extract_products_from_image_def try_extract_def)

subsection \<open>Classification of a frame\<close>

text \<open>
  C1, as amended. For a sampled frame, the timestamp is appended to the positive
  timestamps if and only if the lower-cased response contains one of the presence
  keywords, contains none of the uncertainty keywords, and either the timestamp is below
  the threshold that the code computes, the double \<open>(total_frames / fps) * 1000 * 0.9\<close>
  with each operation rounded to the nearest double, or the lower-cased response does not
  contain \<open>end\<close>; otherwise the list is left as it was.
\<close>

theorem positive_timestamp_iff_double_threshold:
  assumes "fps \<noteq> 0"
    and "response = fst (extract_products_from_image e (Temp (tmp_created (outside st))) q
                           (Some i) (Some fps) (outside st))"
    and "timestamp_ms = py_int (fmul (fdiv (float_of_int i) fps) 1000)"
  shows "product_timestamps (snd (sample_frame e fps total_frames q i st)) =
           product_timestamps st @
           (if (\<exists>k \<in> {''located'', ''visible'', ''is on'', ''can be seen'', ''placed'', ''sitting'',
                        ''present'', ''seen''}. sublist k (py_lower response)) \<and>
               \<not> (\<exists>k \<in> {''not visible'', ''not found'', ''unclear'', ''could be'', ''might be'',
                          ''probably''}. sublist k (py_lower response)) \<and>
               (of_int timestamp_ms <
                  fmul (fmul (fdiv (float_of_int total_frames) fps) 1000) (round_double (9 / 10)) \<or>
                \<not> sublist ''end'' (py_lower response))
            then [timestamp_ms] else [])"
proof -
  have r: "fst (extract_products_from_image e (Temp (tmp_created (outside st))) q (Some i) (Some fps)
        ((outside st)\<lparr>tmp_created := Suc (tmp_created (outside st)),
           tmp_files := tmp_files (outside st) @ [tmp_created (outside st)]\<rparr>)) = response"
    unfolding assms(2) by (rule extract_text_any_world)
  have p: "positive_evidence response timestamp_ms total_frames fps \<longleftrightarrow>
      (\<exists>k \<in> {''located'', ''visible'', ''is on'', ''can be seen'', ''placed'', ''sitting'',
                        ''present'', ''seen''}. sublist k (py_lower response)) \<and>
               \<not> (\<exists>k \<in> {''not visible'', ''not found'', ''unclear'', ''could be'', ''might be'',
                          ''probably''}. sublist k (py_lower response)) \<and>
               (of_int timestamp_ms <
                  fmul (fmul (fdiv (float_of_int total_frames) fps) 1000) (round_double (9 / 10)) \<or>
                \<not> sublist ''end'' (py_lower response))"
    unfolding positive_evidence_def presence_keywords_def uncertainty_keywords_def py_in_def Let_def
      list_ex_iff
    by (simp only: set_simps)
  show ?thesis
    unfolding sample_frame_unfold [OF assms(1)] Let_def r assms(3) [symmetric] snd_conv
    by (simp only: loop_state.simps p)
qed

theorem positive_timestamp_iff_double_threshold_witness:
  "(1::rat) \<noteq> 0 \<and>
   sublist ''located'' (py_lower ''The product might be located on the top shelf'') \<and>
   sublist ''might be'' (py_lower ''The product might be located on the top shelf'') \<and>
   product_timestamps (snd (sample_frame shelf_env 1 4 ''Where is Tide?'' 1 (initial_state new_world))) = []"
proof -
  have f: "(1::rat) \<noteq> 0" by simp
  have r: "''The product might be located on the top shelf'' =
     fst (extract_products_from_image shelf_env (Temp (tmp_created (outside (initial_state new_world))))
            ''Where is Tide?'' (Some 1) (Some 1) (outside (initial_state new_world)))"
    by code_simp
  have t: "(1000::int) = py_int (fmul (fdiv (float_of_int 1) 1) 1000)" by code_simp
  have u: "sublist ''might be'' (py_lower ''The product might be located on the top shelf'')"
    by code_simp
  have k: "sublist ''located'' (py_lower ''The product might be located on the top shelf'')"
    by code_simp
  have p: "product_timestamps (initial_state new_world) = []" by (simp add: initial_state_def)
  from positive_timestamp_iff_double_threshold [OF f r t, of 4] u k p f show ?thesis
    by (simp del: sublist_code)
qed

text \<open>
  Nine tenths of the exact duration is another threshold. In a video of 250 frames at 30
  frames per second, frame 225 has the timestamp 7500, which is not below nine tenths of
  the duration (it is equal to it); the response names a presence keyword and contains
  \<open>end\<close>; and the code appends 7500, since the threshold it computes is the double just
  above 7500.
\<close>

theorem positive_timestamp_counterexample:
  "fst (extract_products_from_image shelf_env (Temp 0) ''Where is Tide?'' (Some 225) (Some 30) new_world) =
     ''The product is visible near the end of the aisle.'' \<and>
   sublist ''visible'' (py_lower ''The product is visible near the end of the aisle.'') \<and>
   sublist ''end'' (py_lower ''The product is visible near the end of the aisle.'') \<and>
   py_int (fmul (fdiv (float_of_int 225) 30) 1000) = 7500 \<and>
   \<not> (rat_of_int 7500 < 9 / 10 * (rat_of_int 250 / 30 * 1000)) \<and>
   product_timestamps (snd (sample_frame shelf_env 30 250 ''Where is Tide?'' 225 (initial_state new_world))) =
     [7500]"
proof -
  have f: "(30::rat) \<noteq> 0" by simp
  have x0: "fst (extract_products_from_image shelf_env (Temp 0) ''Where is Tide?'' (Some 225) (Some 30) new_world) =
     ''The product is visible near the end of the aisle.''"
    by code_simp
  have x: "fst (extract_products_from_image shelf_env (Temp (tmp_created (outside (initial_state new_world))))
       ''Where is Tide?'' (Some 225) (Some 30)
       ((outside (initial_state new_world))\<lparr>tmp_created := Suc (tmp_created (outside (initial_state new_world))),
           tmp_files := tmp_files (outside (initial_state new_world)) @
                          [tmp_created (outside (initial_state new_world))]\<rparr>)) =
       ''The product is visible near the end of the aisle.''"
    by code_simp
  have v: "sublist ''visible'' (py_lower ''The product is visible near the end of the aisle.'')"
    by code_simp
  have n: "sublist ''end'' (py_lower ''The product is visible near the end of the aisle.'')"
    by code_simp
  have t: "py_int (fmul (fdiv (float_of_int 225) 30) 1000) = 7500" by code_simp
  have h: "\<not> (rat_of_int 7500 < 9 / 10 * (rat_of_int 250 / 30 * 1000))" by simp
  have p: "positive_evidence ''The product is visible near the end of the aisle.'' 7500 250 30"
    by code_simp
  have i: "product_timestamps (initial_state new_world) = []" by (simp add: initial_state_def)
  have a: "product_timestamps (snd (sample_frame shelf_env 30 250 ''Where is Tide?'' 225 (initial_state new_world))) =
     [7500]"
    unfolding sample_frame_unfold [OF f] Let_def snd_conv loop_state.simps t x i using p by simp
  from x0 v n t h a show ?thesis by blast
qed

subsection \<open>The sampling loop\<close>

lemma sample_frame_zero_fps:
  "sample_frame e 0 total_frames q i st =
     (Some zero_division,
      st\<lparr>outside := (outside st)\<lparr>tmp_created := Suc (tmp_created (outside st)),
                                   tmp_files := tmp_files (outside st) @ [tmp_created (outside st)]\<rparr>\<rparr>)"
  by (simp add: sample_frame_def Let_def)

text \<open>The indices from \<open>k\<close> on that the loop samples among \<open>n\<close> frames.\<close>

lemma sampled_Cons:
  "filter (\<lambda>i. i mod iv = 0) (map (\<lambda>j. k + int j) [0..<Suc n]) =
     (if k mod iv = 0 then [k] else []) @
     filter (\<lambda>i. i mod iv = 0) (map (\<lambda>j. (k + 1) + int j) [0..<n])"
proof -
  have "[0..<Suc n] = 0 # map Suc [0..<n]"
    by (simp add: upt_conv_Cons map_Suc_upt del: upt_Suc)
  then have "map (\<lambda>j. k + int j) [0..<Suc n] = k # map (\<lambda>j. (k + 1) + int j) [0..<n]"
    by (simp add: comp_def add.assoc del: upt_Suc)
  then show ?thesis by simp
qed

lemma sample_loop_completes:
  assumes "fps \<noteq> 0" and "iv \<noteq> 0"
  shows "fst (sample_loop e fps total_frames q iv fs k st) = None \<and>
         analyzed (snd (sample_loop e fps total_frames q iv fs k st)) =
           analyzed st @ filter (\<lambda>i. i mod iv = 0) (map (\<lambda>j. k + int j) [0..<length fs])"
proof (induction fs arbitrary: k st)
  case Nil
  show ?case by simp
next
  case (Cons f fs)
  show ?case
  proof (cases "k mod iv = 0")
    case True
    obtain st1 where s: "sample_frame e fps total_frames q k st = (None, st1)"
      and a: "analyzed st1 = analyzed st @ [k]"
      by (simp add: sample_frame_unfold [OF assms(1)] Let_def)
    from Cons.IH [of "k + 1" st1] s a True assms(2) show ?thesis
      by (simp add: sampled_Cons del: upt_Suc)
  next
    case False
    with Cons.IH [of "k + 1" st] assms(2) show ?thesis
      by (simp add: sampled_Cons del: upt_Suc)
  qed
qed

lemma sample_loop_aborts:
  assumes "fps = 0 \<or> iv = 0"
  shows "analyzed (snd (sample_loop e fps total_frames q iv fs k st)) = analyzed st \<and>
         frame_responses (snd (sample_loop e fps total_frames q iv fs k st)) = frame_responses st \<and>
         product_timestamps (snd (sample_loop e fps total_frames q iv fs k st)) = product_timestamps st"
proof (induction fs arbitrary: k st)
  case Nil
  show ?case by simp
next
  case (Cons f fs)
  show ?case
  proof (cases "iv = 0")
    case True
    then show ?thesis by simp
  next
    case False
    with assms have z: "fps = 0" by simp
    show ?thesis
    proof (cases "k mod iv = 0")
      case True
      with False z show ?thesis by (simp add: sample_frame_zero_fps)
    next
      case m: False
      with False Cons.IH [of "k + 1" st] show ?thesis by simp
    qed
  qed
qed

lemma sample_frame_files:
  assumes "fps \<noteq> 0" and "\<forall>k \<in> set (tmp_files (outside st)). k < tmp_created (outside st)"
  shows "tmp_files (outside (snd (sample_frame e fps total_frames q i st))) = tmp_files (outside st) \<and>
         tmp_created (outside (snd (sample_frame e fps total_frames q i st))) =
           Suc (tmp_created (outside st))"
proof -
  from assms(2) have "tmp_created (outside st) \<notin> set (tmp_files (outside st))" by auto
  then have "removeAll (tmp_created (outside st)) (tmp_files (outside st)) = tmp_files (outside st)"
    by simp
  then show ?thesis
    using extract_files [of e "Temp (tmp_created (outside st))" q "Some i" "Some fps"
        "(outside st)\<lparr>tmp_created := Suc (tmp_created (outside st)),
           tmp_files := tmp_files (outside st) @ [tmp_created (outside st)]\<rparr>"]
    by (simp add: sample_frame_unfold [OF assms(1)] Let_def)
qed

lemma sample_loop_files:
  assumes "fps \<noteq> 0" and "\<forall>k \<in> set (tmp_files (outside st)). k < tmp_created (outside st)"
  shows "tmp_files (outside (snd (sample_loop e fps total_frames q iv fs k st))) =
           tmp_files (outside st)"
  using assms(2)
proof (induction fs arbitrary: k st)
  case Nil
  show ?case by simp
next
  case (Cons f fs)
  show ?case
  proof (cases "iv \<noteq> 0 \<and> k mod iv = 0")
    case True
    obtain st1 where s: "sample_frame e fps total_frames q k st = (None, st1)"
      by (simp add: sample_frame_unfold [OF assms(1)] Let_def)
    from sample_frame_files [OF assms(1) Cons.prems, of e total_frames q k] s
    have f: "tmp_files (outside st1) = tmp_files (outside st)"
      and c: "tmp_created (outside st1) = Suc (tmp_created (outside st))" by simp_all
    from Cons.prems f c have "\<forall>k \<in> set (tmp_files (outside st1)). k < tmp_created (outside st1)"
      by auto
    from Cons.IH [OF this, of "k + 1"] True s f show ?thesis by simp
  next
    case False
    with Cons.IH [OF Cons.prems, of "k + 1"] show ?thesis by auto
  qed
qed

lemma sample_loop_evidence:
  assumes "fps \<noteq> 0"
    and "list_all2 (\<lambda>i entry. \<exists>response. entry = frame_entry i (py_int (fmul (fdiv (float_of_int i) fps) 1000)) response)
           (analyzed st) (frame_responses st)"
    and "subseq (product_timestamps st) (map (\<lambda>i. py_int (fmul (fdiv (float_of_int i) fps) 1000)) (analyzed st))"
  shows "list_all2 (\<lambda>i entry. \<exists>response. entry = frame_entry i (py_int (fmul (fdiv (float_of_int i) fps) 1000)) response)
           (analyzed (snd (sample_loop e fps total_frames q iv fs k st)))
           (frame_responses (snd (sample_loop e fps total_frames q iv fs k st))) \<and>
         subseq (product_timestamps (snd (sample_loop e fps total_frames q iv fs k st)))
           (map (\<lambda>i. py_int (fmul (fdiv (float_of_int i) fps) 1000))
              (analyzed (snd (sample_loop e fps total_frames q iv fs k st))))"
  using assms(2,3)
proof (induction fs arbitrary: k st)
  case Nil
  then show ?case by simp
next
  case (Cons f fs)
  show ?case
  proof (cases "iv \<noteq> 0 \<and> k mod iv = 0")
    case True
    define st1 where "st1 = snd (sample_frame e fps total_frames q k st)"
    have s: "sample_frame e fps total_frames q k st = (None, st1)"
      unfolding st1_def by (simp add: sample_frame_unfold [OF assms(1)] Let_def)
    have a: "analyzed st1 = analyzed st @ [k]"
      unfolding st1_def by (simp add: sample_frame_unfold [OF assms(1)] Let_def)
    have r: "\<exists>response. frame_responses st1 =
                frame_responses st @ [frame_entry k (py_int (fmul (fdiv (float_of_int k) fps) 1000)) response]"
      unfolding st1_def by (simp add: sample_frame_unfold [OF assms(1)] Let_def) blast
    have p: "product_timestamps st1 = product_timestamps st \<or>
              product_timestamps st1 = product_timestamps st @ [py_int (fmul (fdiv (float_of_int k) fps) 1000)]"
      unfolding st1_def by (simp add: sample_frame_unfold [OF assms(1)] Let_def)
    from Cons.prems(1) a r
    have i1: "list_all2 (\<lambda>i entry. \<exists>response. entry = frame_entry i (py_int (fmul (fdiv (float_of_int i) fps) 1000)) response)
           (analyzed st1) (frame_responses st1)"
      by (auto intro!: list_all2_appendI)
    have i2: "subseq (product_timestamps st1) (map (\<lambda>i. py_int (fmul (fdiv (float_of_int i) fps) 1000)) (analyzed st1))"
      using p
    proof (elim disjE)
      assume "product_timestamps st1 = product_timestamps st"
      with Cons.prems(2) a show ?thesis
        using list_emb_append_mono [of "(=)" "product_timestamps st"
            "map (\<lambda>i. py_int (fmul (fdiv (float_of_int i) fps) 1000)) (analyzed st)" "[]"
            "[py_int (fmul (fdiv (float_of_int k) fps) 1000)]"]
        by simp
    next
      assume "product_timestamps st1 = product_timestamps st @ [py_int (fmul (fdiv (float_of_int k) fps) 1000)]"
      with Cons.prems(2) a show ?thesis
        using list_emb_append_mono [of "(=)" "product_timestamps st"
            "map (\<lambda>i. py_int (fmul (fdiv (float_of_int i) fps) 1000)) (analyzed st)" "[py_int (fmul (fdiv (float_of_int k) fps) 1000)]"
            "[py_int (fmul (fdiv (float_of_int k) fps) 1000)]"]
        by simp
    qed
    from Cons.IH [OF i1 i2, of "k + 1"] True s show ?thesis by simp
  next
    case False
    with Cons.IH [OF Cons.prems, of "k + 1"] Cons.prems show ?thesis by auto
  qed
qed

text \<open>
  C3. For every source and every interval, each index handed to the vision call is a
  multiple of the interval, the indices are handed over in strictly increasing order,
  the evidence document has one entry for each of them in that order, and the positive
  timestamps are timestamps of these indices in that order. When the source is opened,
  its frame rate is not 0 and the interval is not 0, the loop ends without an exception
  and the indices are exactly the multiples of the interval below the number of frames
  that the source delivers. (With a frame rate or an interval of 0 the loop raises at
  its first frame, before any vision call.)
\<close>

theorem sampled_indices:
  "(\<forall>i \<in> set (analyzed (snd (sampling e cap q iv w))). i mod iv = 0) \<and>
   sorted_wrt (<) (analyzed (snd (sampling e cap q iv w))) \<and>
   list_all2 (\<lambda>i entry. \<exists>response.
                entry = frame_entry i (py_int (fmul (fdiv (float_of_int i) (CAP_PROP_FPS cap)) 1000)) response)
     (analyzed (snd (sampling e cap q iv w))) (frame_responses (snd (sampling e cap q iv w))) \<and>
   subseq (product_timestamps (snd (sampling e cap q iv w)))
     (map (\<lambda>i. py_int (fmul (fdiv (float_of_int i) (CAP_PROP_FPS cap)) 1000)) (analyzed (snd (sampling e cap q iv w)))) \<and>
   (isOpened cap \<and> CAP_PROP_FPS cap \<noteq> 0 \<and> iv \<noteq> 0 \<longrightarrow>
      fst (sampling e cap q iv w) = None \<and>
      analyzed (snd (sampling e cap q iv w)) =
        filter (\<lambda>i. i mod iv = 0) (map int [0..<length (frames cap)]))"
proof (cases "isOpened cap \<and> CAP_PROP_FPS cap \<noteq> 0 \<and> iv \<noteq> 0")
  case True
  let ?fps = "CAP_PROP_FPS cap"
  let ?run = "sample_loop e ?fps (py_int (CAP_PROP_FRAME_COUNT cap)) q iv (frames cap) 0 (initial_state w)"
  from True have s: "sampling e cap q iv w = ?run" by (simp add: sampling_def)
  from True have fps: "?fps \<noteq> 0" and iv: "iv \<noteq> 0" by simp_all
  from sample_loop_completes [OF fps iv, of e "py_int (CAP_PROP_FRAME_COUNT cap)" q "frames cap" 0 "initial_state w"]
  have n: "fst ?run = None"
    and a: "analyzed (snd ?run) = filter (\<lambda>i. i mod iv = 0) (map int [0..<length (frames cap)])"
    by (simp_all add: initial_state_def)
  have o: "sorted_wrt (<) (analyzed (snd ?run))"
    unfolding a by (intro sorted_wrt_filter) (simp add: sorted_wrt_map)
  have m: "\<forall>i \<in> set (analyzed (snd ?run)). i mod iv = 0"
    unfolding a by simp
  from sample_loop_evidence [OF fps, of "initial_state w" e "py_int (CAP_PROP_FRAME_COUNT cap)" q iv "frames cap" 0]
  have v: "list_all2 (\<lambda>i entry. \<exists>response.
                entry = frame_entry i (py_int (fmul (fdiv (float_of_int i) ?fps) 1000)) response)
              (analyzed (snd ?run)) (frame_responses (snd ?run)) \<and>
           subseq (product_timestamps (snd ?run))
             (map (\<lambda>i. py_int (fmul (fdiv (float_of_int i) ?fps) 1000)) (analyzed (snd ?run)))"
    by (simp add: initial_state_def)
  from n a o m v show ?thesis unfolding s by blast
next
  case False
  have "analyzed (snd (sampling e cap q iv w)) = [] \<and>
        frame_responses (snd (sampling e cap q iv w)) = [] \<and>
        product_timestamps (snd (sampling e cap q iv w)) = []"
  proof (cases "isOpened cap")
    case True
    with False have "CAP_PROP_FPS cap = 0 \<or> iv = 0" by simp
    from sample_loop_aborts [OF this, of e "py_int (CAP_PROP_FRAME_COUNT cap)" q "frames cap" 0 "initial_state w"] True
    show ?thesis by (simp add: sampling_def initial_state_def)
  next
    case False
    then show ?thesis by (simp add: sampling_def initial_state_def)
  qed
  then have e: "analyzed (snd (sampling e cap q iv w)) = []"
    and r: "frame_responses (snd (sampling e cap q iv w)) = []"
    and p: "product_timestamps (snd (sampling e cap q iv w)) = []" by blast+
  from False show ?thesis unfolding e r p by simp blast
qed

theorem sampled_indices_witness:
  "isOpened shelf_video \<and> CAP_PROP_FPS shelf_video \<noteq> 0 \<and> (2::int) \<noteq> 0 \<and>
   fst (sampling shelf_env shelf_video ''Where is Tide?'' 2 new_world) = None \<and>
   analyzed (snd (sampling shelf_env shelf_video ''Where is Tide?'' 2 new_world)) = [0, 2]"
proof -
  have h: "isOpened shelf_video \<and> CAP_PROP_FPS shelf_video \<noteq> 0 \<and> (2::int) \<noteq> 0"
    by (simp add: shelf_video_def)
  have l: "filter (\<lambda>i. i mod 2 = 0) (map int [0..<length (frames shelf_video)]) = [0, 2]"
    by code_simp
  from sampled_indices [of shelf_env shelf_video "''Where is Tide?''" 2 new_world]
  have "isOpened shelf_video \<and> CAP_PROP_FPS shelf_video \<noteq> 0 \<and> (2::int) \<noteq> 0 \<longrightarrow>
      fst (sampling shelf_env shelf_video ''Where is Tide?'' 2 new_world) = None \<and>
      analyzed (snd (sampling shelf_env shelf_video ''Where is Tide?'' 2 new_world)) =
        filter (\<lambda>i. i mod 2 = 0) (map int [0..<length (frames shelf_video)])"
    by blast
  with h have n: "fst (sampling shelf_env shelf_video ''Where is Tide?'' 2 new_world) = None"
    and a: "analyzed (snd (sampling shelf_env shelf_video ''Where is Tide?'' 2 new_world)) =
        filter (\<lambda>i. i mod 2 = 0) (map int [0..<length (frames shelf_video)])"
    by blast+
  from a l have "analyzed (snd (sampling shelf_env shelf_video ''Where is Tide?'' 2 new_world)) = [0, 2]"
    by (rule trans)
  with h n show ?thesis by blast
qed

subsection \<open>The temporary file of a frame\<close>

text \<open>
  C6. For a sampled frame, whatever the vision call does (it answers, times out, fails
  to connect or fails otherwise: every behaviour of the environment), the loop body ends
  without an exception, it has created one temporary file, that file no longer exists when
  it ends, and the temporary files that exist are those that existed before the frame;
  so no temporary file of a frame is left when the loop goes on, nor when it ends. (The
  frame rate is not 0: otherwise the body raises before it reaches the vision call.)
\<close>

theorem temp_file_removed:
  assumes "fps \<noteq> 0"
    and "\<forall>k \<in> set (tmp_files (outside st)). k < tmp_created (outside st)"
  shows "fst (sample_frame e fps total_frames q i st) = None \<and>
         tmp_created (outside st) \<notin> set (tmp_files (outside (snd (sample_frame e fps total_frames q i st)))) \<and>
         tmp_created (outside (snd (sample_frame e fps total_frames q i st))) =
           Suc (tmp_created (outside st)) \<and>
         tmp_files (outside (snd (sample_frame e fps total_frames q i st))) = tmp_files (outside st) \<and>
         tmp_files (outside (snd (sample_loop e fps total_frames q iv fs k st))) = tmp_files (outside st)"
proof -
  have a: "fst (sample_frame e fps total_frames q i st) = None"
    by (simp add: sample_frame_unfold [OF assms(1)] Let_def)
  from assms(2) have n: "tmp_created (outside st) \<notin> set (tmp_files (outside st))" by auto
  from sample_frame_files [OF assms, of e total_frames q i]
  have b: "tmp_files (outside (snd (sample_frame e fps total_frames q i st))) = tmp_files (outside st)"
    by simp
  from sample_frame_files [OF assms, of e total_frames q i]
  have d: "tmp_created (outside (snd (sample_frame e fps total_frames q i st))) =
             Suc (tmp_created (outside st))"
    by simp
  from sample_loop_files [OF assms, of e total_frames q iv fs k]
  have c: "tmp_files (outside (snd (sample_loop e fps total_frames q iv fs k st))) = tmp_files (outside st)" .
  from a n b c d show ?thesis by simp
qed

theorem temp_file_removed_witness:
  "(1::rat) \<noteq> 0 \<and>
   tmp_files (outside (initial_state new_world)) = [] \<and>
   fst (sample_frame shelf_env 1 4 ''Where is Tide?'' 2 (initial_state new_world)) = None \<and>
   tmp_files (outside (snd (sample_frame shelf_env 1 4 ''Where is Tide?'' 2 (initial_state new_world)))) = [] \<and>
   tmp_files (outside (snd (sample_loop shelf_env 1 4 ''Where is Tide?'' 1 (frames shelf_video) 0
                              (initial_state new_world)))) = []"
proof -
  have f: "(1::rat) \<noteq> 0" by simp
  have h: "\<forall>k \<in> set (tmp_files (outside (initial_state new_world))).
              k < tmp_created (outside (initial_state new_world))"
    by (simp add: initial_state_def new_world_def)
  have z: "tmp_files (outside (initial_state new_world)) = []"
    by (simp add: initial_state_def new_world_def)
  from temp_file_removed [OF f h, of shelf_env 4 "''Where is Tide?''" 2 1 "frames shelf_video" 0] f z
  show ?thesis by simp
qed

subsection \<open>A frame whose vision call times out\<close>

lemma sampled_after:
  assumes "0 < iv" and "n mod iv = 0"
  shows "\<forall>j \<in> set (filter (\<lambda>i. i mod iv = 0) (map (\<lambda>j. n + 1 + int j) [0..<m])). n + iv \<le> j"
proof
  fix j assume "j \<in> set (filter (\<lambda>i. i mod iv = 0) (map (\<lambda>j. n + 1 + int j) [0..<m]))"
  then have j: "j mod iv = 0" and g: "n < j" by auto
  from j assms(2) have "iv dvd j - n" by (simp add: mod_eq_0_iff_dvd)
  with g have "iv \<le> j - n" by (simp add: zdvd_imp_le)
  then show "n + iv \<le> j" by simp
qed

lemma sampled_next:
  assumes "0 < iv" and "n mod iv = 0" and "iv \<le> int m"
  shows "n + iv \<in> set (filter (\<lambda>i. i mod iv = 0) (map (\<lambda>j. n + 1 + int j) [0..<m]))"
proof -
  from assms(1,3) have "nat (iv - 1) < m" by simp
  moreover from assms(1) have "n + 1 + int (nat (iv - 1)) = n + iv" by simp
  ultimately have "n + iv \<in> set (map (\<lambda>j. n + 1 + int j) [0..<m])"
    by (metis (no_types, lifting) atLeast0LessThan imageI lessThan_iff list.set_map set_upt)
  moreover from assms(2) have "(n + iv) mod iv = 0" by simp
  ultimately show ?thesis by simp
qed

text \<open>
  C5. When the body of the vision call for frame \<open>n\<close> raises an exception whose
  lower-cased message contains \<open>timeout\<close>, \<open>extract_products_from_image\<close> returns exactly
  \<open>[Skipped frame n due to timeout. Try again later.]\<close> with \<open>n\<close> in decimal; the loop
  body ends without an exception and records that text as the entry of the frame; the
  loop goes on with the frame after \<open>n\<close> and runs to the end of the source; and the
  indices it samples after \<open>n\<close> are the multiples of the interval among the later
  frames, none of them below \<open>n + interval\<close>, and \<open>n + interval\<close> among them when the
  source has that frame.
\<close>

theorem timeout_frame_is_skipped:
  assumes "fps \<noteq> 0" and "0 < iv" and "n mod iv = 0"
    and "fst (try_extract e (Temp (tmp_created (outside st))) q (Some n) (Some fps) (outside st)) = Inl x"
    and "sublist ''timeout'' (py_lower (exn_message x))"
  shows "fst (extract_products_from_image e (Temp (tmp_created (outside st))) q (Some n) (Some fps)
               (outside st)) =
           ''[Skipped frame '' @ str_int n @ '' due to timeout. Try again later.]'' \<and>
         fst (sample_frame e fps total_frames q n st) = None \<and>
         frame_responses (snd (sample_frame e fps total_frames q n st)) =
           frame_responses st @
             [frame_entry n (py_int (fmul (fdiv (float_of_int n) fps) 1000))
                (''[Skipped frame '' @ str_int n @ '' due to timeout. Try again later.]'')] \<and>
         sample_loop e fps total_frames q iv (frame # rest) n st =
           sample_loop e fps total_frames q iv rest (n + 1) (snd (sample_frame e fps total_frames q n st)) \<and>
         fst (sample_loop e fps total_frames q iv (frame # rest) n st) = None \<and>
         analyzed (snd (sample_loop e fps total_frames q iv (frame # rest) n st)) =
           analyzed st @ n # filter (\<lambda>i. i mod iv = 0) (map (\<lambda>j. n + 1 + int j) [0..<length rest]) \<and>
         (\<forall>j \<in> set (filter (\<lambda>i. i mod iv = 0) (map (\<lambda>j. n + 1 + int j) [0..<length rest])). n + iv \<le> j) \<and>
         (iv \<le> int (length rest) \<longrightarrow>
            n + iv \<in> set (filter (\<lambda>i. i mod iv = 0) (map (\<lambda>j. n + 1 + int j) [0..<length rest])))"
proof -
  let ?k = "tmp_created (outside st)"
  let ?marker = "''[Skipped frame '' @ str_int n @ '' due to timeout. Try again later.]''"
  from assms(2) have iv: "iv \<noteq> 0" by simp
  obtain w' where t: "try_extract e (Temp ?k) q (Some n) (Some fps) (outside st) = (Inl x, w')"
    using assms(4) by (cases "try_extract e (Temp ?k) q (Some n) (Some fps) (outside st)") simp
  have m: "skip_marker (Some n) x = ?marker"
    using assms(5) by (simp add: skip_marker_def py_in_def str_int_opt_def Let_def)
  have a: "fst (extract_products_from_image e (Temp ?k) q (Some n) (Some fps) (outside st)) = ?marker"
    using t m by (simp add: extract_products_from_image_def)
  have a': "fst (extract_products_from_image e (Temp ?k) q (Some n) (Some fps)
               ((outside st)\<lparr>tmp_created := Suc ?k, tmp_files := tmp_files (outside st) @ [?k]\<rparr>)) = ?marker"
    using a extract_text_any_world [of e "Temp ?k" q "Some n" "Some fps"
        "(outside st)\<lparr>tmp_created := Suc ?k, tmp_files := tmp_files (outside st) @ [?k]\<rparr>" "outside st"]
    by (rule_tac trans)
  have b: "fst (sample_frame e fps total_frames q n st) = None"
    by (simp add: sample_frame_unfold [OF assms(1)] Let_def)
  have c: "frame_responses (snd (sample_frame e fps total_frames q n st)) =
           frame_responses st @ [frame_entry n (py_int (fmul (fdiv (float_of_int n) fps) 1000)) ?marker]"
    unfolding sample_frame_unfold [OF assms(1)] Let_def a' by simp
  from b have s: "sample_frame e fps total_frames q n st = (None, snd (sample_frame e fps total_frames q n st))"
    by (metis prod.collapse)
  have d: "sample_loop e fps total_frames q iv (frame # rest) n st =
           sample_loop e fps total_frames q iv rest (n + 1) (snd (sample_frame e fps total_frames q n st))"
    using iv assms(3) by (subst sample_loop.simps(2), subst s) simp
  from sample_loop_completes [OF assms(1) iv, of e total_frames q "frame # rest" n st] assms(3)
  have f: "fst (sample_loop e fps total_frames q iv (frame # rest) n st) = None"
    and g: "analyzed (snd (sample_loop e fps total_frames q iv (frame # rest) n st)) =
           analyzed st @ n # filter (\<lambda>i. i mod iv = 0) (map (\<lambda>j. n + 1 + int j) [0..<length rest])"
    by (simp_all add: sampled_Cons del: upt_Suc sample_loop.simps)
  note h = sampled_after [OF assms(2,3), of "length rest"]
  have i: "iv \<le> int (length rest) \<longrightarrow>
            n + iv \<in> set (filter (\<lambda>i. i mod iv = 0) (map (\<lambda>j. n + 1 + int j) [0..<length rest]))"
    using sampled_next [OF assms(2,3), of "length rest"] by blast
  from a b c d f g h i show ?thesis by blast
qed

theorem timeout_frame_is_skipped_witness:
  "(1::rat) \<noteq> 0 \<and> (0::int) < 2 \<and> (42::int) mod 2 = 0 \<and>
   fst (try_extract shelf_env (Temp (tmp_created (outside (initial_state new_world)))) ''Where is Tide?''
          (Some 42) (Some 1) (outside (initial_state new_world))) =
     Inl (Exn ''APITimeoutError'' ''Request Timeout after 30s'') \<and>
   sublist ''timeout'' (py_lower (exn_message (Exn ''APITimeoutError'' ''Request Timeout after 30s''))) \<and>
   fst (extract_products_from_image shelf_env (Temp (tmp_created (outside (initial_state new_world))))
          ''Where is Tide?'' (Some 42) (Some 1) (outside (initial_state new_world))) =
     ''[Skipped frame 42 due to timeout. Try again later.]'' \<and>
   fst (sample_loop shelf_env 1 45 ''Where is Tide?'' 2 [''f42'', ''f43'', ''f44''] 42
          (initial_state new_world)) = None \<and>
   analyzed (snd (sample_loop shelf_env 1 45 ''Where is Tide?'' 2 [''f42'', ''f43'', ''f44''] 42
                    (initial_state new_world))) = [42, 44]"
proof -
  have h1: "(1::rat) \<noteq> 0" and h2: "(0::int) < 2" and h3: "(42::int) mod 2 = 0" by simp_all
  have h4: "fst (try_extract shelf_env (Temp (tmp_created (outside (initial_state new_world))))
          ''Where is Tide?'' (Some 42) (Some 1) (outside (initial_state new_world))) =
     Inl (Exn ''APITimeoutError'' ''Request Timeout after 30s'')"
    by code_simp
  have h5: "sublist ''timeout'' (py_lower (exn_message (Exn ''APITimeoutError'' ''Request Timeout after 30s'')))"
    by code_simp
  have m: "''[Skipped frame '' @ str_int 42 @ '' due to timeout. Try again later.]'' =
           ''[Skipped frame 42 due to timeout. Try again later.]''"
    by code_simp
  have l: "analyzed (initial_state new_world) @
             42 # filter (\<lambda>i. i mod 2 = 0) (map (\<lambda>j. 42 + 1 + int j) [0..<length [''f43'', ''f44'']]) =
           [42, 44]"
    by code_simp
  note t = timeout_frame_is_skipped [OF h1 h2 h3 h4 h5, of 45 "''f42''" "[''f43'', ''f44'']"]
  from t have a: "fst (extract_products_from_image shelf_env (Temp (tmp_created (outside (initial_state new_world))))
          ''Where is Tide?'' (Some 42) (Some 1) (outside (initial_state new_world))) =
     ''[Skipped frame '' @ str_int 42 @ '' due to timeout. Try again later.]''"
    by blast
  from t have b: "fst (sample_loop shelf_env 1 45 ''Where is Tide?'' 2 [''f42'', ''f43'', ''f44''] 42
          (initial_state new_world)) = None"
    by blast
  from t have c: "analyzed (snd (sample_loop shelf_env 1 45 ''Where is Tide?'' 2 [''f42'', ''f43'', ''f44''] 42
                    (initial_state new_world))) =
       analyzed (initial_state new_world) @
             42 # filter (\<lambda>i. i mod 2 = 0) (map (\<lambda>j. 42 + 1 + int j) [0..<length [''f43'', ''f44'']])"
    by blast
  from a m have a': "fst (extract_products_from_image shelf_env (Temp (tmp_created (outside (initial_state new_world))))
          ''Where is Tide?'' (Some 42) (Some 1) (outside (initial_state new_world))) =
     ''[Skipped frame 42 due to timeout. Try again later.]''"
    by (rule trans)
  from c l have c': "analyzed (snd (sample_loop shelf_env 1 45 ''Where is Tide?'' 2 [''f42'', ''f43'', ''f44''] 42
                    (initial_state new_world))) = [42, 44]"
    by (rule trans)
  from h1 h2 h3 h4 h5 a' b c' show ?thesis by blast
qed

subsection \<open>The returned timestamps\<close>

lemma analyze_after_sampling:
  assumes "sampling e cap q iv w = (None, st)"
    and "chat_completions_create e (Summary_request q (combine (frame_responses st))) = Reply (Some s)"
  shows "(\<forall>d. fst (analyze_video_for_query e cap video_path q iv w) = Inr d \<longrightarrow>
            final_summary d = py_strip s \<and>
            timestamps d = final_timestamps (product_timestamps st) (py_strip s)) \<and>
         (\<forall>v. chat_completions_create e
                 (Evaluation_request q (py_strip s) (combine (frame_responses st))) = Reply (Some v) \<longrightarrow>
              (\<exists>d. fst (analyze_video_for_query e cap video_path q iv w) = Inr d))"
  using assms
  by (auto simp add: analyze_video_for_query_def chat_text_def image_branch_def default_branch_def
      evaluate_summary_accuracy_def Let_def
      split: prod.splits api_outcome.splits option.splits sum.splits)

text \<open>
  C2. When the sampling loop has ended and the summary call has answered, and the loop
  collected no positive timestamp or the lower-cased summary contains \<open>not visible\<close>,
  then every dictionary the function returns has the empty list as its timestamps,
  whatever the loop collected; and the function does return one when the evaluation
  call answers as well (the summary and evaluation calls are not guarded, so an exception
  of theirs leaves the function).
\<close>

theorem summary_overrules_timestamps:
  assumes "sampling e cap q iv w = (None, st)"
    and "chat_completions_create e (Summary_request q (combine (frame_responses st))) = Reply (Some s)"
    and "product_timestamps st = [] \<or> sublist ''not visible'' (py_lower (py_strip s))"
  shows "(\<forall>d. fst (analyze_video_for_query e cap video_path q iv w) = Inr d \<longrightarrow> timestamps d = []) \<and>
         (\<forall>v. chat_completions_create e
                 (Evaluation_request q (py_strip s) (combine (frame_responses st))) = Reply (Some v) \<longrightarrow>
              (\<exists>d. fst (analyze_video_for_query e cap video_path q iv w) = Inr d \<and> timestamps d = []))"
proof -
  from assms(3) have "final_timestamps (product_timestamps st) (py_strip s) = []"
    by (auto simp add: final_timestamps_def py_in_def)
  with analyze_after_sampling [OF assms(1,2), of video_path] show ?thesis
    by metis
qed

theorem summary_overrules_timestamps_witness:
  "sampling shelf_env shelf_video ''Where is Tide?'' 1 new_world =
     (None, snd (sampling shelf_env shelf_video ''Where is Tide?'' 1 new_world)) \<and>
   product_timestamps (snd (sampling shelf_env shelf_video ''Where is Tide?'' 1 new_world)) = [0, 3000] \<and>
   chat_completions_create shelf_env
     (Summary_request ''Where is Tide?''
        (combine (frame_responses (snd (sampling shelf_env shelf_video ''Where is Tide?'' 1 new_world))))) =
     Reply (Some ''The product is Not Visible in this video. '') \<and>
   sublist ''not visible'' (py_lower (py_strip ''The product is Not Visible in this video. '')) \<and>
   (\<exists>d. fst (analyze_video_for_query shelf_env shelf_video ''shelf.mp4'' ''Where is Tide?'' 1 new_world) = Inr d \<and>
        timestamps d = [])"
proof -
  let ?st = "snd (sampling shelf_env shelf_video ''Where is Tide?'' 1 new_world)"
  have "fst (sampling shelf_env shelf_video ''Where is Tide?'' 1 new_world) = None"
    by code_simp
  then have h1: "sampling shelf_env shelf_video ''Where is Tide?'' 1 new_world = (None, ?st)"
    by (metis prod.collapse)
  have p: "product_timestamps ?st = [0, 3000]"
    by code_simp
  have h2: "chat_completions_create shelf_env
     (Summary_request ''Where is Tide?'' (combine (frame_responses ?st))) =
     Reply (Some ''The product is Not Visible in this video. '')"
    by (simp add: shelf_env_def)
  have n: "sublist ''not visible'' (py_lower (py_strip ''The product is Not Visible in this video. ''))"
    by code_simp
  then have h3: "product_timestamps ?st = [] \<or>
      sublist ''not visible'' (py_lower (py_strip ''The product is Not Visible in this video. ''))"
    by (rule disjI2)
  have v: "chat_completions_create shelf_env
     (Evaluation_request ''Where is Tide?'' (py_strip ''The product is Not Visible in this video. '')
        (combine (frame_responses ?st))) = Reply (Some ''Accuracy Score (0-100)%: 90'')"
    by (simp add: shelf_env_def)
  from summary_overrules_timestamps [OF h1 h2 h3, of "''shelf.mp4''"] v
  have "\<exists>d. fst (analyze_video_for_query shelf_env shelf_video ''shelf.mp4'' ''Where is Tide?'' 1 new_world) = Inr d \<and>
        timestamps d = []"
    by blast
  with h1 p h2 n show ?thesis by blast
qed

subsection \<open>A source that cannot be opened\<close>

text \<open>
  C7. When the source cannot be opened, the sampling stage ends without an exception in
  its initial state: no index was handed to the vision call, there is no frame response
  and no request was sent. The evidence document is the empty string, and it is what the
  summary request, the first request of the run, carries. Every dictionary the function
  returns has the empty list as its timestamps, and it returns one when the summary and
  evaluation calls answer.
\<close>

theorem unopened_source:
  assumes "\<not> isOpened cap"
  shows "sampling e cap q iv w = (None, initial_state w) \<and>
         analyzed (initial_state w) = [] \<and>
         frame_responses (initial_state w) = [] \<and>
         outside (initial_state w) = w \<and>
         combine (frame_responses (initial_state w)) = [] \<and>
         take (Suc (length (requests w))) (requests (snd (analyze_video_for_query e cap video_path q iv w))) =
           requests w @ [Summary_request q []] \<and>
         (\<forall>d. fst (analyze_video_for_query e cap video_path q iv w) = Inr d \<longrightarrow> timestamps d = []) \<and>
         (\<forall>s v. chat_completions_create e (Summary_request q []) = Reply (Some s) \<longrightarrow>
                chat_completions_create e (Evaluation_request q (py_strip s) []) = Reply (Some v) \<longrightarrow>
                (\<exists>d. fst (analyze_video_for_query e cap video_path q iv w) = Inr d \<and> timestamps d = []))"
proof -
  from assms have s: "sampling e cap q iv w = (None, initial_state w)"
    by (simp add: sampling_def)
  have i: "analyzed (initial_state w) = []" "frame_responses (initial_state w) = []"
    "outside (initial_state w) = w" "product_timestamps (initial_state w) = []"
    by (simp_all add: initial_state_def)
  have c: "combine (frame_responses (initial_state w)) = []"
    by (simp add: i combine_def)
  have r: "take (Suc (length (requests w))) (requests (snd (analyze_video_for_query e cap video_path q iv w))) =
           requests w @ [Summary_request q []]"
    by (simp add: analyze_video_for_query_def s i c combine_def chat_text_def image_branch_def default_branch_def
        evaluate_summary_accuracy_def extract_products_from_image_def try_extract_def Let_def
        split: prod.splits api_outcome.splits option.splits sum.splits)
  have t: "\<forall>d. fst (analyze_video_for_query e cap video_path q iv w) = Inr d \<longrightarrow> timestamps d = []"
    by (auto simp add: analyze_video_for_query_def s i c combine_def chat_text_def image_branch_def default_branch_def
        evaluate_summary_accuracy_def final_timestamps_def Let_def
        split: prod.splits api_outcome.splits option.splits sum.splits)
  have x: "\<forall>s v. chat_completions_create e (Summary_request q []) = Reply (Some s) \<longrightarrow>
                chat_completions_create e (Evaluation_request q (py_strip s) []) = Reply (Some v) \<longrightarrow>
                (\<exists>d. fst (analyze_video_for_query e cap video_path q iv w) = Inr d \<and> timestamps d = [])"
    by (auto simp add: analyze_video_for_query_def s i c combine_def chat_text_def image_branch_def default_branch_def
        evaluate_summary_accuracy_def final_timestamps_def Let_def
        split: prod.splits api_outcome.splits option.splits sum.splits)
  from s i c r t x show ?thesis by blast
qed

theorem unopened_source_witness:
  "\<not> isOpened unopened_video \<and>
   sampling shelf_env unopened_video ''Where is Tide?'' 23 new_world = (None, initial_state new_world) \<and>
   take (Suc (length (requests new_world)))
     (requests (snd (analyze_video_for_query shelf_env unopened_video ''shelf.mp4'' ''Where is Tide?'' 23 new_world))) =
     requests new_world @ [Summary_request ''Where is Tide?'' []] \<and>
   (\<exists>d. fst (analyze_video_for_query shelf_env unopened_video ''shelf.mp4'' ''Where is Tide?'' 23 new_world) = Inr d \<and>
        timestamps d = [])"
proof -
  have h: "\<not> isOpened unopened_video" by (simp add: unopened_video_def)
  have s: "chat_completions_create shelf_env (Summary_request ''Where is Tide?'' []) =
             Reply (Some ''The product is Not Visible in this video. '')"
    by (simp add: shelf_env_def)
  have v: "chat_completions_create shelf_env
             (Evaluation_request ''Where is Tide?'' (py_strip ''The product is Not Visible in this video. '') []) =
             Reply (Some ''Accuracy Score (0-100)%: 90'')"
    by (simp add: shelf_env_def)
  from unopened_source [OF h, of shelf_env "''Where is Tide?''" 23 new_world "''shelf.mp4''"] h s v
  show ?thesis by blast
qed

subsection \<open>Similar products\<close>

lemma similarity_score_confidence [simp]:
  "similarity_score (p\<lparr>confidence := c\<rparr>) s = similarity_score p s"
  by (simp add: similarity_score_def)

lemma similar_loop_eq:
  "similar_loop s ps acc =
     acc @ map (\<lambda>p. p\<lparr>confidence := similarity_score p s\<rparr>)
             (filter (\<lambda>p. 5 / 10 < similarity_score p s) ps)"
  by (induction ps arbitrary: acc) (simp_all add: Let_def)

text \<open>
  C10. For every list of detected products and every query, each product that
  \<open>find_similar_products\<close> returns is a detected product whose score against the
  lower-cased query is above 0.5, with its confidence set to that score; the returned
  list is in non-increasing order of confidence; and it has one element for each
  detected product with such a score.
\<close>

theorem find_similar_products_sorted_above_threshold:
  "(\<forall>p \<in> set (find_similar_products detected_products search_query).
      confidence p = similarity_score p (py_lower search_query) \<and>
      5 / 10 < confidence p \<and>
      (\<exists>d \<in> set detected_products. p = d\<lparr>confidence := similarity_score d (py_lower search_query)\<rparr>)) \<and>
   sorted_wrt (\<lambda>a b. confidence b \<le> confidence a)
     (find_similar_products detected_products search_query) \<and>
   length (find_similar_products detected_products search_query) =
     length (filter (\<lambda>d. 5 / 10 < similarity_score d (py_lower search_query)) detected_products)"
proof -
  let ?s = "py_lower search_query"
  let ?kept = "map (\<lambda>p. p\<lparr>confidence := similarity_score p ?s\<rparr>)
                 (filter (\<lambda>p. 5 / 10 < similarity_score p ?s) detected_products)"
  have f: "find_similar_products detected_products search_query =
             sort_key (\<lambda>x. - confidence x) ?kept"
    by (simp add: find_similar_products_def similar_loop_eq Let_def)
  have a: "\<forall>p \<in> set ?kept.
      confidence p = similarity_score p ?s \<and> 5 / 10 < confidence p \<and>
      (\<exists>d \<in> set detected_products. p = d\<lparr>confidence := similarity_score d ?s\<rparr>)"
    by auto
  have "sorted (map (\<lambda>x. - confidence x) (sort_key (\<lambda>x. - confidence x) ?kept))"
    by (rule sorted_sort_key)
  then have b: "sorted_wrt (\<lambda>a b. confidence b \<le> confidence a) (sort_key (\<lambda>x. - confidence x) ?kept)"
    by (simp add: sorted_wrt_map)
  have c: "length (sort_key (\<lambda>x. - confidence x) ?kept) =
           length (filter (\<lambda>d. 5 / 10 < similarity_score d ?s) detected_products)"
    by simp
  from a b c show ?thesis unfolding f by (simp only: set_sort) 
qed

theorem find_similar_products_sorted_above_threshold_witness:
  "map name (find_similar_products detected_on_shelf ''Tide Detergent Pods'') = [''Tide Pods'', ''Soap''] \<and>
   map confidence (find_similar_products detected_on_shelf ''Tide Detergent Pods'') = [9 / 10, 7 / 10] \<and>
   sorted_wrt (\<lambda>a b. confidence b \<le> confidence a)
     (find_similar_products detected_on_shelf ''Tide Detergent Pods'')"
proof -
  have "map name (find_similar_products detected_on_shelf ''Tide Detergent Pods'') = [''Tide Pods'', ''Soap'']"
    by code_simp
  moreover have "map confidence (find_similar_products detected_on_shelf ''Tide Detergent Pods'') = [9 / 10, 7 / 10]"
    by code_simp
  moreover from find_similar_products_sorted_above_threshold [of detected_on_shelf "''Tide Detergent Pods''"]
  have "sorted_wrt (\<lambda>a b. confidence b \<le> confidence a)
     (find_similar_products detected_on_shelf ''Tide Detergent Pods'')"
    by blast
  ultimately show ?thesis by blast
qed

end
